theory Spec2Isabelle
  imports Complex_Main
begin

section \<open>The feedback workflow of the participants dashboard (app.py)\<close>

text \<open>
  The script app.py is run from top to bottom on every user interaction. Everything it
  remembers between two runs is held in \<open>st.session_state\<close>, a dictionary with the four
  keys \<open>current_cluster_id\<close>, \<open>feedback_choice\<close>, \<open>feedback_comment_submitted\<close> and
  \<open>feedback_textarea\<close>; free-text feedback goes to the Qdrant collection
  \<open>user_feedback\<close>. The model below follows the script statement by statement for the
  lines that read or write these two pieces of state (lines 41-52, 68-76, 103, 112-156).
\<close>

subsection \<open>Session state\<close>

text \<open>
  The values the script stores under \<open>feedback_choice\<close> are \<open>None\<close> and the two string
  literals \<open>"pasuje"\<close> (the description matches) and \<open>"nie_pasuje"\<close> (it does not match).
\<close>

datatype choice = Pasuje | Nie_pasuje

text \<open>
  A key of the dictionary is either missing (\<open>None\<close>) or holds a value (\<open>Some v\<close>); the
  script tests for missing keys (lines 69, 75, 112, 154) and reads with a default
  (lines 42, 133), so the model keeps the difference. Under \<open>feedback_choice\<close> the stored
  value may itself be Python's \<open>None\<close>: \<open>Some None\<close> is the key holding \<open>None\<close>.
  Strings are lists of characters with code points below 256.
\<close>

record session_state =
  current_cluster_id :: "string option"
  feedback_choice :: "choice option option"
  feedback_comment_submitted :: "bool option"
  feedback_textarea :: "string option"

text \<open>The session state of a new session: no key is set.\<close>

definition empty_session :: session_state where
  "empty_session =
     \<lparr>current_cluster_id = None, feedback_choice = None,
      feedback_comment_submitted = None, feedback_textarea = None\<rparr>"

text \<open>\<open>st.session_state.get('feedback_comment_submitted', False)\<close> (line 133).\<close>

definition get_feedback_comment_submitted :: "session_state \<Rightarrow> bool" where
  "get_feedback_comment_submitted s =
     (case feedback_comment_submitted s of None \<Rightarrow> False | Some b \<Rightarrow> b)"

text \<open>\<open>st.session_state.get("feedback_textarea", "")\<close> (line 42).\<close>

definition get_feedback_textarea :: "session_state \<Rightarrow> string" where
  "get_feedback_textarea s =
     (case feedback_textarea s of None \<Rightarrow> [] | Some t \<Rightarrow> t)"

subsection \<open>Python's \<open>str.strip()\<close>\<close>

text \<open>
  Without an argument \<open>strip\<close> removes the leading and the trailing whitespace. Below code
  point 256 Python's whitespace characters are U+0009 to U+000D, U+001C to U+0020, U+0085
  and U+00A0.
\<close>

definition isspace :: "char \<Rightarrow> bool" where
  "isspace c =
     (let n = (of_char c :: nat)
      in (9 \<le> n \<and> n \<le> 13) \<or> (28 \<le> n \<and> n \<le> 32) \<or> n = 133 \<or> n = 160)"

definition lstrip :: "string \<Rightarrow> string" where
  "lstrip t = dropWhile isspace t"

definition rstrip :: "string \<Rightarrow> string" where
  "rstrip t = rev (dropWhile isspace (rev t))"

definition strip :: "string \<Rightarrow> string" where
  "strip t = rstrip (lstrip t)"

subsection \<open>The note store\<close>

text \<open>
  \<open>PointStruct(id=..., vector=..., payload=...)\<close> of the Qdrant client. The payload is a
  dictionary from strings to strings, kept as an association list.
\<close>

record point_struct =
  point_id :: int
  vector :: "real list"
  payload :: "(string \<times> string) list"

text \<open>
  The collection \<open>user_feedback\<close> is the list of the points it holds. The Qdrant client
  is not part of the script; its two operations are modelled by their contract:
  \<open>count\<close> is the number of points held, and \<open>upsert\<close> of a point replaces the point
  stored under the same id if there is one and adds the point otherwise.
\<close>

type_synonym collection = "point_struct list"

definition count :: "collection \<Rightarrow> int" where
  "count db = int (length db)"

fun upsert_point :: "collection \<Rightarrow> point_struct \<Rightarrow> collection" where
  "upsert_point [] p = [p]"
| "upsert_point (q # qs) p =
     (if point_id q = point_id p then p # qs else q # upsert_point qs p)"

fun upsert :: "collection \<Rightarrow> point_struct list \<Rightarrow> collection" where
  "upsert db [] = db"
| "upsert db (p # ps) = upsert (upsert_point db p) ps"

text \<open>The point stored under an id, if any.\<close>

definition retrieve :: "collection \<Rightarrow> int \<Rightarrow> point_struct option" where
  "retrieve db i = find (\<lambda>p. point_id p = i) db"

text \<open>\<open>add_note_to_db\<close> (lines 41-52).\<close>

definition add_note_to_db :: "session_state \<Rightarrow> collection \<Rightarrow> collection" where
  "add_note_to_db s db =
     (let feedback_comment = strip (get_feedback_textarea s)
      in if feedback_comment = [] then db
         else
           let cnt = count db;
               point = \<lparr>point_id = cnt + 1, vector = [0],
                        payload = [(''text'', feedback_comment)]\<rparr>
           in upsert db [point])"

subsection \<open>The transitions\<close>

text \<open>\<open>reset_feedback_on_cluster_change\<close> (lines 68-76), called on every run (line 103).\<close>

definition reset_feedback_on_cluster_change :: "string \<Rightarrow> session_state \<Rightarrow> session_state" where
  "reset_feedback_on_cluster_change new_cluster_id s =
     (if current_cluster_id s = None then
        s\<lparr>current_cluster_id := Some new_cluster_id\<rparr>
      else if current_cluster_id s \<noteq> Some new_cluster_id then
        s\<lparr>current_cluster_id := Some new_cluster_id,
          feedback_choice := Some None,
          feedback_comment_submitted := Some False,
          feedback_textarea := None\<rparr>
      else s)"

text \<open>Lines 112-113: a missing \<open>feedback_choice\<close> is set to \<open>None\<close>.\<close>

definition init_feedback_choice :: "session_state \<Rightarrow> session_state" where
  "init_feedback_choice s =
     (if feedback_choice s = None then s\<lparr>feedback_choice := Some None\<rparr> else s)"

text \<open>
  The four buttons of the feedback section: the two choice buttons (lines 118, 122), the
  button with key \<open>submit_feedback\<close> (line 140) and the button that changes the choice
  (line 151). At most one of them is clicked in a run.
\<close>

datatype button = Btn_pasuje | Btn_nie_pasuje | Submit_feedback | Btn_zmien_wybor

text \<open>
  What a run of the feedback section does besides changing the two states: \<open>st.rerun()\<close>,
  which stops the run at once and starts the next one, and \<open>st.warning\<close> (line 146). The
  calls that only display the current state (\<open>st.success\<close>, \<open>st.info\<close>, the charts) are
  left out.
\<close>

datatype effect = Rerun | Warning

text \<open>
  Lines 150-156, reached when no \<open>st.rerun()\<close> has stopped the run before; \<open>out\<close> holds
  the effects of the lines above.
\<close>

definition change_choice ::
  "button option \<Rightarrow> session_state \<times> collection \<Rightarrow> effect list
     \<Rightarrow> (session_state \<times> collection) \<times> effect list" where
  "change_choice click sd out =
     (case sd of (s, db) \<Rightarrow>
        if feedback_choice s \<noteq> Some None then
          (if click = Some Btn_zmien_wybor then
             ((s\<lparr>feedback_choice := Some None,
                  feedback_comment_submitted := Some False,
                  feedback_textarea := None\<rparr>, db), out @ [Rerun])
           else (sd, out))
        else (sd, out))"

text \<open>
  Lines 112-156. The text area has the key \<open>feedback_textarea\<close>: Streamlit keeps what the
  user has typed under that key, and the call of line 135 returns it (the empty string
  when nothing has been typed).
\<close>

definition feedback_section ::
  "button option \<Rightarrow> session_state \<times> collection
     \<Rightarrow> (session_state \<times> collection) \<times> effect list" where
  "feedback_section click sd =
     (case sd of (s0, db) \<Rightarrow>
        let s = init_feedback_choice s0 in
        if feedback_choice s = Some None then
          (if click = Some Btn_pasuje then
             ((s\<lparr>feedback_choice := Some (Some Pasuje)\<rparr>, db), [Rerun])
           else if click = Some Btn_nie_pasuje then
             ((s\<lparr>feedback_choice := Some (Some Nie_pasuje)\<rparr>, db), [Rerun])
           else change_choice click (s, db) [])
        else if feedback_choice s = Some (Some Pasuje) then
          change_choice click (s, db) []
        else if \<not> get_feedback_comment_submitted s then
          (let feedback_comment = get_feedback_textarea s in
           if click = Some Submit_feedback then
             (if strip feedback_comment \<noteq> [] then
                ((s\<lparr>feedback_comment_submitted := Some True\<rparr>, add_note_to_db s db),
                 [Rerun])
              else change_choice click (s, db) [Warning])
           else change_choice click (s, db) [])
        else change_choice click (s, db) [])"

text \<open>
  The user edits the text area. The text area exists only when line 135 has been reached,
  that is when the choice is \<open>"nie_pasuje"\<close> and no comment has been submitted; Streamlit
  then stores the text under the key \<open>feedback_textarea\<close>.
\<close>

definition text_area_shown :: "session_state \<Rightarrow> bool" where
  "text_area_shown s =
     (feedback_choice s = Some (Some Nie_pasuje) \<and> \<not> get_feedback_comment_submitted s)"

definition type_feedback :: "string \<Rightarrow> session_state \<Rightarrow> session_state" where
  "type_feedback t s = (if text_area_shown s then s\<lparr>feedback_textarea := Some t\<rparr> else s)"

text \<open>
  One run of the script (lines 103-156) with the cluster predicted for the sidebar's
  values and the button clicked, if any.
\<close>

definition script_run ::
  "string \<Rightarrow> button option \<Rightarrow> session_state \<times> collection
     \<Rightarrow> (session_state \<times> collection) \<times> effect list" where
  "script_run predicted_cluster_id click sd =
     (case sd of (s, db) \<Rightarrow>
        feedback_section click (reset_feedback_on_cluster_change predicted_cluster_id s, db))"

subsection \<open>Sessions as sequences of events\<close>

text \<open>
  A session is a sequence of events: a cluster is assigned (line 103), the user types
  into the text area, or the feedback section runs with or without a click.
\<close>

datatype event = Assign string | Type_text string | Section "button option"

fun step :: "event \<Rightarrow> session_state \<times> collection \<Rightarrow> session_state \<times> collection" where
  "step (Assign c) (s, db) = (reset_feedback_on_cluster_change c s, db)"
| "step (Type_text t) (s, db) = (type_feedback t s, db)"
| "step (Section click) (s, db) = fst (feedback_section click (s, db))"

fun run_events :: "event list \<Rightarrow> session_state \<times> collection \<Rightarrow> session_state \<times> collection" where
  "run_events [] sd = sd"
| "run_events (e # es) sd = run_events es (step e sd)"

subsection \<open>Interactions: runs with Streamlit's bookkeeping of the text area\<close>

text \<open>
  The events above are the script's own statements. Between two interactions of the user
  Streamlit also keeps the keys of widgets in step with what is drawn. Streamlit is not
  part of the script; this part of it is modelled by its contract: the call that draws a
  widget with a key creates the key with the widget's default (the empty string for a
  text area) when it is missing, and a run that reaches the end of the script drops the
  key of a widget it has not drawn. A run stopped by \<open>st.rerun()\<close> does neither; it is
  followed at once by a run with the same sidebar values and no click.

  Line 135 is reached in a run exactly when the tests of lines 116, 126 and 133 send it
  there, which depends on the state after line 103 only.
\<close>

definition text_area_rendered :: "session_state \<Rightarrow> bool" where
  "text_area_rendered s0 =
     (let s = init_feedback_choice s0
      in feedback_choice s \<noteq> Some None \<and> feedback_choice s \<noteq> Some (Some Pasuje)
         \<and> \<not> get_feedback_comment_submitted s)"

definition widget_bookkeeping :: "bool \<Rightarrow> session_state \<Rightarrow> session_state" where
  "widget_bookkeeping rendered s =
     (if rendered then
        (if feedback_textarea s = None then s\<lparr>feedback_textarea := Some []\<rparr> else s)
      else s\<lparr>feedback_textarea := None\<rparr>)"

text \<open>
  One run under Streamlit: the script, and the bookkeeping when the run was not stopped by
  \<open>st.rerun()\<close>.
\<close>

definition streamlit_run ::
  "string \<Rightarrow> button option \<Rightarrow> session_state \<times> collection
     \<Rightarrow> (session_state \<times> collection) \<times> effect list" where
  "streamlit_run predicted_cluster_id click sd =
     (case sd of (s, db) \<Rightarrow>
        let rendered =
              text_area_rendered (reset_feedback_on_cluster_change predicted_cluster_id s);
            r = script_run predicted_cluster_id click (s, db)
        in if Rerun \<in> set (snd r) then r
           else ((widget_bookkeeping rendered (fst (fst r)), snd (fst r)), snd r))"

text \<open>
  An interaction of the user: the cluster predicted for the sidebar's values, the text
  typed into the text area since the last run, if any, and the button clicked, if any.
  The run it starts is followed by one more run without a click when \<open>st.rerun()\<close> has
  stopped it; a run without a click is never stopped (lemma \<open>streamlit_run_no_click\<close>
  below), so the state after the second run is the state in which the session rests
  until the next interaction.
\<close>

datatype interaction =
  Interaction (cluster: string) (typed: "string option") (clicked: "button option")

fun interact ::
  "interaction \<Rightarrow> session_state \<times> collection \<Rightarrow> session_state \<times> collection" where
  "interact (Interaction c t click) (s, db) =
     (let s1 = (case t of None \<Rightarrow> s | Some txt \<Rightarrow> type_feedback txt s);
          r1 = streamlit_run c click (s1, db)
      in if Rerun \<in> set (snd r1) then fst (streamlit_run c None (fst r1)) else fst r1)"

fun run_session ::
  "interaction list \<Rightarrow> session_state \<times> collection \<Rightarrow> session_state \<times> collection" where
  "run_session [] sd = sd"
| "run_session (i # is) sd = run_session is (interact i sd)"

text \<open>
  The property of the session state that every event keeps: a comment counts as
  submitted only under the choice \<open>"nie_pasuje"\<close>. The property of the states in which a
  session rests: a text is held under \<open>feedback_textarea\<close> only where the text area is
  shown.
\<close>

definition submitted_inv :: "session_state \<Rightarrow> bool" where
  "submitted_inv s =
     (get_feedback_comment_submitted s \<longrightarrow> feedback_choice s = Some (Some Nie_pasuje))"

definition resting_inv :: "session_state \<Rightarrow> bool" where
  "resting_inv s = (feedback_textarea s \<noteq> None \<longrightarrow> text_area_shown s)"

section \<open>Properties\<close>

subsection \<open>Auxiliary facts\<close>

lemmas section_defs =
  feedback_section_def init_feedback_choice_def change_choice_def
  get_feedback_comment_submitted_def Let_def

lemmas strip_defs = strip_def lstrip_def rstrip_def isspace_def

lemma feedback_choice_cases:
  "feedback_choice s = None \<or> feedback_choice s = Some None
     \<or> feedback_choice s = Some (Some Pasuje) \<or> feedback_choice s = Some (Some Nie_pasuje)"
proof (cases "feedback_choice s")
  case None
  then show ?thesis by simp
next
  case (Some v)
  then show ?thesis
  proof (cases v)
    case None
    with Some show ?thesis by simp
  next
    case (Some ch)
    with \<open>feedback_choice s = Some v\<close> show ?thesis by (cases ch) simp_all
  qed
qed

text \<open>What \<open>strip\<close> removes is whitespace, and what it leaves starts and ends without.\<close>

lemma lstrip_split:
  "lstrip t = strip t @ rev (takeWhile isspace (rev (lstrip t)))"
proof -
  have "strip t @ rev (takeWhile isspace (rev (lstrip t)))
      = rev (takeWhile isspace (rev (lstrip t)) @ dropWhile isspace (rev (lstrip t)))"
    by (simp only: strip_def rstrip_def rev_append)
  also have "\<dots> = rev (rev (lstrip t))"
    by (simp only: takeWhile_dropWhile_id)
  finally show ?thesis by simp
qed

lemma strip_split:
  "\<exists>pre suf. t = pre @ strip t @ suf
     \<and> (\<forall>c \<in> set pre. isspace c) \<and> (\<forall>c \<in> set suf. isspace c)"
proof -
  define pre where "pre = takeWhile isspace t"
  define suf where "suf = rev (takeWhile isspace (rev (lstrip t)))"
  have "t = pre @ lstrip t"
    by (simp add: lstrip_def pre_def)
  also have "lstrip t = strip t @ suf"
    unfolding suf_def by (rule lstrip_split)
  finally have t: "t = pre @ strip t @ suf" .
  have p: "\<forall>c \<in> set pre. isspace c"
    by (auto simp: pre_def dest: set_takeWhileD)
  have s: "\<forall>c \<in> set suf. isspace c"
    by (auto simp: suf_def dest: set_takeWhileD)
  from t p s show ?thesis by blast
qed

lemma strip_last: "strip t \<noteq> [] \<Longrightarrow> \<not> isspace (last (strip t))"
  by (simp add: strip_def rstrip_def last_rev hd_dropWhile)

lemma strip_hd:
  assumes "strip t \<noteq> []"
  shows "\<not> isspace (hd (strip t))"
proof -
  have "hd (lstrip t) = hd (strip t @ rev (takeWhile isspace (rev (lstrip t))))"
    using lstrip_split [of t] by simp
  then have h: "hd (lstrip t) = hd (strip t)"
    using assms by simp
  have "lstrip t \<noteq> []"
    using assms by (auto simp: strip_def rstrip_def)
  then have "\<not> isspace (hd (lstrip t))"
    by (simp add: lstrip_def hd_dropWhile)
  with h show ?thesis by simp
qed

lemma strip_empty_iff: "strip t = [] \<longleftrightarrow> (\<forall>c \<in> set t. isspace c)"
proof
  assume e: "strip t = []"
  obtain pre suf where "t = pre @ strip t @ suf"
    and "\<forall>c \<in> set pre. isspace c" and "\<forall>c \<in> set suf. isspace c"
    using strip_split by blast
  with e show "\<forall>c \<in> set t. isspace c" by auto
next
  assume "\<forall>c \<in> set t. isspace c"
  then show "strip t = []"
    by (auto simp: strip_def rstrip_def lstrip_def dest: set_dropWhileD)
qed

text \<open>The note store after an upsert.\<close>

lemma retrieve_upsert_point: "retrieve (upsert_point db p) (point_id p) = Some p"
  by (induction db) (auto simp: retrieve_def)

lemma upsert_point_fresh:
  "point_id p \<notin> point_id ` set db \<Longrightarrow> upsert_point db p = db @ [p]"
  by (induction db) auto

lemma upsert_point_unique:
  "distinct (map point_id db)
     \<Longrightarrow> filter (\<lambda>q. point_id q = point_id p) (upsert_point db p) = [p]"
proof (induction db)
  case Nil
  then show ?case by simp
next
  case (Cons q qs)
  show ?case
  proof (cases "point_id q = point_id p")
    case True
    with Cons.prems have "point_id p \<notin> point_id ` set qs"
      by simp
    then have "\<forall>r \<in> set qs. point_id r \<noteq> point_id p"
      by (metis imageI)
    then have "filter (\<lambda>r. point_id r = point_id p) qs = []"
      by (simp add: filter_empty_conv)
    with True show ?thesis by simp
  next
    case False
    with Cons show ?thesis by simp
  qed
qed

text \<open>The click on the submit button when the comment is accepted (lines 140-144).\<close>

lemma submit_feedback_accepted:
  assumes "feedback_choice s = Some (Some Nie_pasuje)"
    and "\<not> get_feedback_comment_submitted s"
    and "strip (get_feedback_textarea s) \<noteq> []"
  shows "feedback_section (Some Submit_feedback) (s, db) =
           ((s\<lparr>feedback_comment_submitted := Some True\<rparr>,
             upsert_point db
               \<lparr>point_id = count db + 1, vector = [0],
                payload = [(''text'', strip (get_feedback_textarea s))]\<rparr>),
            [Rerun])"
  using assms
  by (simp add: feedback_section_def init_feedback_choice_def add_note_to_db_def)

text \<open>Every event keeps the two properties.\<close>

lemma submitted_inv_assign:
  "submitted_inv s \<Longrightarrow> submitted_inv (reset_feedback_on_cluster_change c s)"
  by (auto simp: submitted_inv_def reset_feedback_on_cluster_change_def
      get_feedback_comment_submitted_def)

lemma submitted_inv_type: "submitted_inv s \<Longrightarrow> submitted_inv (type_feedback t s)"
  by (auto simp: submitted_inv_def type_feedback_def get_feedback_comment_submitted_def)

lemma submitted_inv_section:
  "submitted_inv s \<Longrightarrow> submitted_inv (fst (fst (feedback_section click (s, db))))"
  using feedback_choice_cases [of s]
  by (auto simp: submitted_inv_def section_defs)

lemma submitted_inv_step: "submitted_inv (fst sd) \<Longrightarrow> submitted_inv (fst (step e sd))"
  by (cases e; cases sd)
     (simp_all add: submitted_inv_assign submitted_inv_type submitted_inv_section)

lemma submitted_inv_run:
  "submitted_inv (fst sd) \<Longrightarrow> submitted_inv (fst (run_events es sd))"
  by (induction es arbitrary: sd) (simp_all add: submitted_inv_step)

text \<open>A run of the script is an assignment followed by the feedback section.\<close>

lemma script_run_steps:
  "fst (script_run c click sd) = step (Section click) (step (Assign c) sd)"
  by (cases sd) (simp add: script_run_def)

text \<open>
  Runs under Streamlit: a run without a click is not stopped, a run that is not stopped
  leaves the state as it is after lines 103 and 112-113, and the text area is drawn in it
  exactly when it is shown in that state.
\<close>

lemma section_no_click: "snd (feedback_section None sd) = []"
  by (cases sd) (auto simp: section_defs)

lemma script_run_no_click: "snd (script_run c None sd) = []"
  by (cases sd) (simp add: script_run_def section_no_click)

lemma section_completed:
  "Rerun \<notin> set (snd (feedback_section click (s, db)))
     \<Longrightarrow> fst (feedback_section click (s, db)) = (init_feedback_choice s, db)"
  using feedback_choice_cases [of s]
  by (auto simp: section_defs split: if_splits)

lemma text_area_rendered_shown:
  "text_area_rendered s = text_area_shown (init_feedback_choice s)"
  using feedback_choice_cases [of s]
  by (auto simp: text_area_rendered_def text_area_shown_def init_feedback_choice_def
      get_feedback_comment_submitted_def Let_def)

lemma resting_inv_bookkeeping:
  "resting_inv (widget_bookkeeping (text_area_shown s) s)"
  by (simp add: resting_inv_def widget_bookkeeping_def text_area_shown_def
      get_feedback_comment_submitted_def)

lemma streamlit_run_resting:
  assumes "Rerun \<notin> set (snd (streamlit_run c click sd))"
  shows "resting_inv (fst (fst (streamlit_run c click sd)))"
proof (cases sd)
  case (Pair s db)
  define s2 where "s2 = reset_feedback_on_cluster_change c s"
  have n: "Rerun \<notin> set (snd (feedback_section click (s2, db)))"
    using assms Pair by (simp add: streamlit_run_def script_run_def s2_def Let_def split: if_splits)
  then have f: "fst (feedback_section click (s2, db)) = (init_feedback_choice s2, db)"
    by (rule section_completed)
  have "fst (fst (streamlit_run c click sd))
      = widget_bookkeeping (text_area_shown (init_feedback_choice s2)) (init_feedback_choice s2)"
    using n f Pair
    by (simp add: streamlit_run_def script_run_def s2_def [symmetric] Let_def
        text_area_rendered_shown)
  then show ?thesis by (simp add: resting_inv_bookkeeping)
qed

lemma streamlit_run_no_click: "snd (streamlit_run c None sd) = []"
  by (cases sd) (simp add: streamlit_run_def Let_def script_run_no_click)

lemma resting_inv_interact: "resting_inv (fst (interact i sd))"
proof (cases i; cases sd)
  fix c t click s db
  assume i: "i = Interaction c t click" and sd: "sd = (s, db)"
  define s1 where "s1 = (case t of None \<Rightarrow> s | Some txt \<Rightarrow> type_feedback txt s)"
  define r1 where "r1 = streamlit_run c click (s1, db)"
  show ?thesis
  proof (cases "Rerun \<in> set (snd r1)")
    case True
    have "Rerun \<notin> set (snd (streamlit_run c None (fst r1)))"
      by (simp add: streamlit_run_no_click)
    then have "resting_inv (fst (fst (streamlit_run c None (fst r1))))"
      by (rule streamlit_run_resting)
    with True show ?thesis
      by (simp add: i sd s1_def [symmetric] r1_def [symmetric] Let_def)
  next
    case False
    then have "resting_inv (fst (fst r1))"
      unfolding r1_def by (rule streamlit_run_resting)
    with False show ?thesis
      by (simp add: i sd s1_def [symmetric] r1_def [symmetric] Let_def)
  qed
qed

lemma resting_inv_session:
  "resting_inv (fst sd) \<Longrightarrow> resting_inv (fst (run_session is sd))"
  by (induction "is" arbitrary: sd) (simp_all add: resting_inv_interact)

text \<open>
  A comment counts as submitted only under the choice \<open>"nie_pasuje"\<close> in the states in
  which a session rests as well.
\<close>

lemma submitted_inv_bookkeeping:
  "submitted_inv s \<Longrightarrow> submitted_inv (widget_bookkeeping r s)"
  by (simp add: submitted_inv_def widget_bookkeeping_def get_feedback_comment_submitted_def)

lemma submitted_inv_streamlit_run:
  "submitted_inv (fst sd) \<Longrightarrow> submitted_inv (fst (fst (streamlit_run c click sd)))"
proof (cases sd)
  case (Pair s db)
  assume "submitted_inv (fst sd)"
  with Pair have "submitted_inv (reset_feedback_on_cluster_change c s)"
    by (simp add: submitted_inv_assign)
  then have "submitted_inv
      (fst (fst (feedback_section click (reset_feedback_on_cluster_change c s, db))))"
    by (rule submitted_inv_section)
  with Pair show ?thesis
    by (simp add: streamlit_run_def script_run_def Let_def submitted_inv_bookkeeping)
qed

lemma submitted_inv_interact:
  "submitted_inv (fst sd) \<Longrightarrow> submitted_inv (fst (interact i sd))"
proof (cases i; cases sd)
  fix c t click s db
  assume a: "submitted_inv (fst sd)" and i: "i = Interaction c t click" and sd: "sd = (s, db)"
  define s1 where "s1 = (case t of None \<Rightarrow> s | Some txt \<Rightarrow> type_feedback txt s)"
  have "submitted_inv s1"
    using a sd by (cases t) (simp_all add: s1_def submitted_inv_type)
  then have 1: "submitted_inv (fst (fst (streamlit_run c click (s1, db))))"
    using submitted_inv_streamlit_run [of "(s1, db)" c click] by simp
  then have 2: "submitted_inv
      (fst (fst (streamlit_run c None (fst (streamlit_run c click (s1, db))))))"
    by (rule submitted_inv_streamlit_run)
  from 1 2 show "submitted_inv (fst (interact i sd))"
    by (simp add: i sd s1_def [symmetric] Let_def)
qed

lemma submitted_inv_session:
  "submitted_inv (fst sd) \<Longrightarrow> submitted_inv (fst (run_session is sd))"
  by (induction "is" arbitrary: sd) (simp_all add: submitted_inv_interact)

lemmas session_defs =
  empty_session_def streamlit_run_def script_run_def text_area_rendered_def
  widget_bookkeeping_def reset_feedback_on_cluster_change_def section_defs
  type_feedback_def text_area_shown_def get_feedback_textarea_def strip_defs
  add_note_to_db_def


subsection \<open>Assignment of a cluster\<close>

text \<open>
  C1. When a cluster is already recorded and \<open>reset_feedback_on_cluster_change\<close> is
  called with a different one, the new cluster is recorded, \<open>feedback_choice\<close> is \<open>None\<close>,
  \<open>feedback_comment_submitted\<close> is \<open>False\<close> and the key \<open>feedback_textarea\<close> is gone.
  This holds whatever the feedback was before, in particular when a choice had been made.
\<close>

theorem change_resets_feedback:
  assumes "current_cluster_id s = Some c" and "c' \<noteq> c"
  shows "reset_feedback_on_cluster_change c' s =
           \<lparr>current_cluster_id = Some c', feedback_choice = Some None,
            feedback_comment_submitted = Some False, feedback_textarea = None\<rparr>"
  using assms by (simp add: reset_feedback_on_cluster_change_def)

theorem change_resets_feedback_witness:
  "current_cluster_id
     \<lparr>current_cluster_id = Some ''A'', feedback_choice = Some (Some Nie_pasuje),
      feedback_comment_submitted = Some True, feedback_textarea = Some ''too vague''\<rparr>
     = Some ''A''
   \<and> ''B'' \<noteq> ''A''
   \<and> reset_feedback_on_cluster_change ''B''
       \<lparr>current_cluster_id = Some ''A'', feedback_choice = Some (Some Nie_pasuje),
        feedback_comment_submitted = Some True, feedback_textarea = Some ''too vague''\<rparr>
     = \<lparr>current_cluster_id = Some ''B'', feedback_choice = Some None,
        feedback_comment_submitted = Some False, feedback_textarea = None\<rparr>"
  using change_resets_feedback
    [of "\<lparr>current_cluster_id = Some ''A'', feedback_choice = Some (Some Nie_pasuje),
          feedback_comment_submitted = Some True, feedback_textarea = Some ''too vague''\<rparr>"
        "''A''" "''B''"]
  by simp

text \<open>
  C2. When no cluster is recorded yet, \<open>reset_feedback_on_cluster_change\<close> records the
  cluster and touches nothing else: the choice, the submitted flag and the text are what
  they were. In a new session the choice stays absent and the flag stays false.
\<close>

theorem first_assignment_sets_cluster_only:
  assumes "current_cluster_id s = None"
  shows "reset_feedback_on_cluster_change c s = s\<lparr>current_cluster_id := Some c\<rparr>
       \<and> feedback_choice (reset_feedback_on_cluster_change c s) = feedback_choice s
       \<and> get_feedback_comment_submitted (reset_feedback_on_cluster_change c s)
           = get_feedback_comment_submitted s
       \<and> feedback_textarea (reset_feedback_on_cluster_change c s) = feedback_textarea s"
  using assms
  by (simp add: reset_feedback_on_cluster_change_def get_feedback_comment_submitted_def)

theorem first_assignment_sets_cluster_only_witness:
  "current_cluster_id empty_session = None
   \<and> reset_feedback_on_cluster_change ''A'' empty_session
       = \<lparr>current_cluster_id = Some ''A'', feedback_choice = None,
          feedback_comment_submitted = None, feedback_textarea = None\<rparr>
   \<and> feedback_choice (reset_feedback_on_cluster_change ''A'' empty_session) = None
   \<and> \<not> get_feedback_comment_submitted (reset_feedback_on_cluster_change ''A'' empty_session)"
  using first_assignment_sets_cluster_only [of empty_session "''A''"]
  by (simp add: empty_session_def get_feedback_comment_submitted_def)

text \<open>
  C8. When \<open>reset_feedback_on_cluster_change\<close> is called with the cluster already
  recorded, the session state is unchanged: the choice, the submitted flag and the text
  are what they were.
\<close>

theorem same_cluster_preserves_feedback:
  assumes "current_cluster_id s = Some c"
  shows "reset_feedback_on_cluster_change c s = s"
  using assms by (simp add: reset_feedback_on_cluster_change_def)

theorem same_cluster_preserves_feedback_witness:
  "current_cluster_id
     \<lparr>current_cluster_id = Some ''A'', feedback_choice = Some (Some Nie_pasuje),
      feedback_comment_submitted = Some False, feedback_textarea = Some ''too vague''\<rparr>
     = Some ''A''
   \<and> reset_feedback_on_cluster_change ''A''
       \<lparr>current_cluster_id = Some ''A'', feedback_choice = Some (Some Nie_pasuje),
        feedback_comment_submitted = Some False, feedback_textarea = Some ''too vague''\<rparr>
     = \<lparr>current_cluster_id = Some ''A'', feedback_choice = Some (Some Nie_pasuje),
        feedback_comment_submitted = Some False, feedback_textarea = Some ''too vague''\<rparr>"
  using same_cluster_preserves_feedback
    [of "\<lparr>current_cluster_id = Some ''A'', feedback_choice = Some (Some Nie_pasuje),
          feedback_comment_submitted = Some False, feedback_textarea = Some ''too vague''\<rparr>"
        "''A''"]
  by simp

subsection \<open>Reachable states\<close>

text \<open>
  C3. In every state that a session reaches from the empty session state, by any
  sequence of cluster assignments, edits of the text area and runs of the feedback section
  with any click, and for any note store, \<open>feedback_comment_submitted\<close> is true only if
  \<open>feedback_choice\<close> is \<open>"nie_pasuje"\<close>.
\<close>

theorem comment_submitted_only_if_nie_pasuje:
  assumes "get_feedback_comment_submitted (fst (run_events es (empty_session, db)))"
  shows "feedback_choice (fst (run_events es (empty_session, db))) = Some (Some Nie_pasuje)"
proof -
  have "submitted_inv (fst (empty_session, db))"
    by (simp add: submitted_inv_def empty_session_def get_feedback_comment_submitted_def)
  then have "submitted_inv (fst (run_events es (empty_session, db)))"
    by (rule submitted_inv_run)
  with assms show ?thesis by (simp add: submitted_inv_def)
qed

theorem comment_submitted_only_if_nie_pasuje_witness:
  "get_feedback_comment_submitted
     (fst (run_events
        [Assign ''A'', Section (Some Btn_nie_pasuje), Type_text ''too vague'',
         Section (Some Submit_feedback)] (empty_session, [])))
   \<and> feedback_choice
       (fst (run_events
          [Assign ''A'', Section (Some Btn_nie_pasuje), Type_text ''too vague'',
           Section (Some Submit_feedback)] (empty_session, [])))
     = Some (Some Nie_pasuje)"
proof -
  have h: "get_feedback_comment_submitted
     (fst (run_events
        [Assign ''A'', Section (Some Btn_nie_pasuje), Type_text ''too vague'',
         Section (Some Submit_feedback)] (empty_session, [])))"
    by (simp add: empty_session_def reset_feedback_on_cluster_change_def section_defs
        type_feedback_def text_area_shown_def get_feedback_textarea_def strip_defs
        add_note_to_db_def)
  from h comment_submitted_only_if_nie_pasuje [OF h] show ?thesis by (rule conjI)
qed

text \<open>
  C9. In every state in which a session rests, after any sequence of interactions from
  the empty session state and for any note store, a text is held under
  \<open>feedback_textarea\<close> only while \<open>feedback_choice\<close> is \<open>"nie_pasuje"\<close> and
  \<open>feedback_comment_submitted\<close> is false. In particular, once a comment has been
  submitted the key \<open>feedback_textarea\<close> is gone: the run that follows the \<open>st.rerun()\<close>
  of line 144 does not draw the text area.
\<close>

theorem text_only_while_composing:
  "(feedback_textarea (fst (run_session is (empty_session, db))) \<noteq> None \<longrightarrow>
      feedback_choice (fst (run_session is (empty_session, db))) = Some (Some Nie_pasuje)
      \<and> \<not> get_feedback_comment_submitted (fst (run_session is (empty_session, db))))
   \<and> (get_feedback_comment_submitted (fst (run_session is (empty_session, db))) \<longrightarrow>
      feedback_textarea (fst (run_session is (empty_session, db))) = None)"
proof -
  have "resting_inv (fst (empty_session, db))"
    by (simp add: resting_inv_def empty_session_def)
  then have "resting_inv (fst (run_session is (empty_session, db)))"
    by (rule resting_inv_session)
  then show ?thesis
    by (auto simp: resting_inv_def text_area_shown_def)
qed

theorem text_only_while_composing_witness:
  "feedback_textarea
     (fst (run_session
        [Interaction ''A'' None None, Interaction ''A'' None (Some Btn_nie_pasuje),
         Interaction ''A'' (Some ''too vague'') None] (empty_session, [])))
     = Some ''too vague''
   \<and> feedback_choice
     (fst (run_session
        [Interaction ''A'' None None, Interaction ''A'' None (Some Btn_nie_pasuje),
         Interaction ''A'' (Some ''too vague'') None] (empty_session, [])))
     = Some (Some Nie_pasuje)
   \<and> \<not> get_feedback_comment_submitted
     (fst (run_session
        [Interaction ''A'' None None, Interaction ''A'' None (Some Btn_nie_pasuje),
         Interaction ''A'' (Some ''too vague'') None] (empty_session, [])))
   \<and> get_feedback_comment_submitted
     (fst (run_session
        [Interaction ''A'' None None, Interaction ''A'' None (Some Btn_nie_pasuje),
         Interaction ''A'' (Some ''too vague'') None,
         Interaction ''A'' None (Some Submit_feedback)] (empty_session, [])))
   \<and> feedback_textarea
     (fst (run_session
        [Interaction ''A'' None None, Interaction ''A'' None (Some Btn_nie_pasuje),
         Interaction ''A'' (Some ''too vague'') None,
         Interaction ''A'' None (Some Submit_feedback)] (empty_session, [])))
     = None"
proof -
  have t: "feedback_textarea
     (fst (run_session
        [Interaction ''A'' None None, Interaction ''A'' None (Some Btn_nie_pasuje),
         Interaction ''A'' (Some ''too vague'') None] (empty_session, [])))
     = Some ''too vague''"
    by (simp add: session_defs)
  have u: "get_feedback_comment_submitted
     (fst (run_session
        [Interaction ''A'' None None, Interaction ''A'' None (Some Btn_nie_pasuje),
         Interaction ''A'' (Some ''too vague'') None,
         Interaction ''A'' None (Some Submit_feedback)] (empty_session, [])))"
    by (simp add: session_defs)
  show ?thesis
    using t u
      text_only_while_composing
        [of "[Interaction ''A'' None None, Interaction ''A'' None (Some Btn_nie_pasuje),
              Interaction ''A'' (Some ''too vague'') None]" "[]"]
      text_only_while_composing
        [of "[Interaction ''A'' None None, Interaction ''A'' None (Some Btn_nie_pasuje),
              Interaction ''A'' (Some ''too vague'') None,
              Interaction ''A'' None (Some Submit_feedback)]" "[]"]
    by simp
qed

subsection \<open>Submission of a comment\<close>

text \<open>
  C4. When the choice is \<open>"nie_pasuje"\<close>, no comment has been submitted and the stripped
  text is not empty, a click on the submit button upserts exactly one point, whose id is
  the count of the collection plus one, and sets \<open>feedback_comment_submitted\<close> to \<open>True\<close>;
  nothing else changes. When that id is not taken, the collection grows by this one point
  at its end; when the ids of the collection are distinct, the new point is afterwards the
  only one with that id.
\<close>

theorem submit_persists_note:
  assumes "feedback_choice s = Some (Some Nie_pasuje)"
    and "\<not> get_feedback_comment_submitted s"
    and "strip (get_feedback_textarea s) \<noteq> []"
  shows "let pt = \<lparr>point_id = count db + 1, vector = [0],
                     payload = [(''text'', strip (get_feedback_textarea s))]\<rparr>
         in feedback_section (Some Submit_feedback) (s, db) =
              ((s\<lparr>feedback_comment_submitted := Some True\<rparr>, upsert db [pt]), [Rerun])
          \<and> (count db + 1 \<notin> point_id ` set db \<longrightarrow> upsert db [pt] = db @ [pt])
          \<and> (distinct (map point_id db) \<longrightarrow>
                filter (\<lambda>q. point_id q = count db + 1) (upsert db [pt]) = [pt])"
proof -
  define pt where "pt = \<lparr>point_id = count db + 1, vector = [0],
                     payload = [(''text'', strip (get_feedback_textarea s))]\<rparr>"
  have i: "point_id pt = count db + 1"
    by (simp add: pt_def)
  have 1: "feedback_section (Some Submit_feedback) (s, db) =
              ((s\<lparr>feedback_comment_submitted := Some True\<rparr>, upsert db [pt]), [Rerun])"
    using submit_feedback_accepted [OF assms, of db] by (simp add: pt_def)
  have 2: "count db + 1 \<notin> point_id ` set db \<longrightarrow> upsert db [pt] = db @ [pt]"
    using upsert_point_fresh [of pt db] by (simp add: i)
  have 3: "distinct (map point_id db) \<longrightarrow>
                filter (\<lambda>q. point_id q = count db + 1) (upsert db [pt]) = [pt]"
    using upsert_point_unique [of db pt] by (simp add: i)
  from 1 2 3 show ?thesis
    unfolding Let_def pt_def by blast
qed

theorem submit_persists_note_witness:
  "feedback_choice
     \<lparr>current_cluster_id = Some ''A'', feedback_choice = Some (Some Nie_pasuje),
      feedback_comment_submitted = Some False, feedback_textarea = Some ''  too vague ''\<rparr>
     = Some (Some Nie_pasuje)
   \<and> \<not> get_feedback_comment_submitted
       \<lparr>current_cluster_id = Some ''A'', feedback_choice = Some (Some Nie_pasuje),
        feedback_comment_submitted = Some False, feedback_textarea = Some ''  too vague ''\<rparr>
   \<and> strip (get_feedback_textarea
       \<lparr>current_cluster_id = Some ''A'', feedback_choice = Some (Some Nie_pasuje),
        feedback_comment_submitted = Some False, feedback_textarea = Some ''  too vague ''\<rparr>)
     \<noteq> []
   \<and> 2 \<notin> point_id ` set [\<lparr>point_id = 1, vector = [0], payload = [(''text'', ''first'')]\<rparr>]
   \<and> distinct (map point_id [\<lparr>point_id = 1, vector = [0], payload = [(''text'', ''first'')]\<rparr>])
   \<and> feedback_section (Some Submit_feedback)
       (\<lparr>current_cluster_id = Some ''A'', feedback_choice = Some (Some Nie_pasuje),
         feedback_comment_submitted = Some False, feedback_textarea = Some ''  too vague ''\<rparr>,
        [\<lparr>point_id = 1, vector = [0], payload = [(''text'', ''first'')]\<rparr>])
     = ((\<lparr>current_cluster_id = Some ''A'', feedback_choice = Some (Some Nie_pasuje),
          feedback_comment_submitted = Some True, feedback_textarea = Some ''  too vague ''\<rparr>,
         [\<lparr>point_id = 1, vector = [0], payload = [(''text'', ''first'')]\<rparr>,
          \<lparr>point_id = 2, vector = [0], payload = [(''text'', ''too vague'')]\<rparr>]),
        [Rerun])"
  using submit_persists_note
    [of "\<lparr>current_cluster_id = Some ''A'', feedback_choice = Some (Some Nie_pasuje),
          feedback_comment_submitted = Some False, feedback_textarea = Some ''  too vague ''\<rparr>"
        "[\<lparr>point_id = 1, vector = [0], payload = [(''text'', ''first'')]\<rparr>]"]
  by (simp add: get_feedback_comment_submitted_def get_feedback_textarea_def strip_defs
      count_def Let_def)

text \<open>
  C10. After an accepted submission the note store holds, under the id count plus one, the
  point with the vector \<open>[0.0]\<close> and the payload \<open>{"text": t}\<close>, where \<open>t\<close> is the stripped
  text of the text area: the text is \<open>t\<close> between a prefix and a suffix of whitespace,
  and \<open>t\<close> neither starts nor ends with whitespace.
\<close>

theorem persisted_text_is_stripped:
  assumes "feedback_choice s = Some (Some Nie_pasuje)"
    and "\<not> get_feedback_comment_submitted s"
    and "strip (get_feedback_textarea s) \<noteq> []"
  shows "retrieve (snd (fst (feedback_section (Some Submit_feedback) (s, db)))) (count db + 1)
           = Some \<lparr>point_id = count db + 1, vector = [0],
                   payload = [(''text'', strip (get_feedback_textarea s))]\<rparr>
       \<and> (\<exists>pre suf. get_feedback_textarea s = pre @ strip (get_feedback_textarea s) @ suf
             \<and> (\<forall>c \<in> set pre. isspace c) \<and> (\<forall>c \<in> set suf. isspace c))
       \<and> \<not> isspace (hd (strip (get_feedback_textarea s)))
       \<and> \<not> isspace (last (strip (get_feedback_textarea s)))"
proof -
  define pt where "pt = \<lparr>point_id = count db + 1, vector = [0],
                     payload = [(''text'', strip (get_feedback_textarea s))]\<rparr>"
  have "snd (fst (feedback_section (Some Submit_feedback) (s, db))) = upsert_point db pt"
    using submit_feedback_accepted [OF assms, of db] by (simp add: pt_def)
  moreover have "retrieve (upsert_point db pt) (point_id pt) = Some pt"
    by (rule retrieve_upsert_point)
  moreover have "point_id pt = count db + 1"
    by (simp add: pt_def)
  ultimately have 1: "retrieve (snd (fst (feedback_section (Some Submit_feedback) (s, db))))
      (count db + 1) = Some pt"
    by simp
  from 1 strip_split [of "get_feedback_textarea s"] strip_hd [OF assms(3)] strip_last [OF assms(3)]
  show ?thesis
    unfolding pt_def by blast
qed

theorem persisted_text_is_stripped_witness:
  "feedback_choice
     \<lparr>current_cluster_id = Some ''A'', feedback_choice = Some (Some Nie_pasuje),
      feedback_comment_submitted = None, feedback_textarea = Some ''  too vague ''\<rparr>
     = Some (Some Nie_pasuje)
   \<and> \<not> get_feedback_comment_submitted
       \<lparr>current_cluster_id = Some ''A'', feedback_choice = Some (Some Nie_pasuje),
        feedback_comment_submitted = None, feedback_textarea = Some ''  too vague ''\<rparr>
   \<and> strip (get_feedback_textarea
       \<lparr>current_cluster_id = Some ''A'', feedback_choice = Some (Some Nie_pasuje),
        feedback_comment_submitted = None, feedback_textarea = Some ''  too vague ''\<rparr>)
     \<noteq> []
   \<and> retrieve (snd (fst (feedback_section (Some Submit_feedback)
       (\<lparr>current_cluster_id = Some ''A'', feedback_choice = Some (Some Nie_pasuje),
         feedback_comment_submitted = None, feedback_textarea = Some ''  too vague ''\<rparr>,
        [])))) 1
     = Some \<lparr>point_id = 1, vector = [0], payload = [(''text'', ''too vague'')]\<rparr>"
  using persisted_text_is_stripped
    [of "\<lparr>current_cluster_id = Some ''A'', feedback_choice = Some (Some Nie_pasuje),
          feedback_comment_submitted = None, feedback_textarea = Some ''  too vague ''\<rparr>"
        "[]"]
  by (simp add: get_feedback_comment_submitted_def get_feedback_textarea_def strip_defs
      count_def)

text \<open>
  C5. When the text is empty or consists of whitespace only, a click on the submit button
  does not set \<open>feedback_comment_submitted\<close>, leaves the note store as it is
  (\<open>add_note_to_db\<close> itself returns before it reaches the store) and changes no value
  of the session state: the state after the run is the state before it, up to lines
  112-113 storing \<open>None\<close> under a missing \<open>feedback_choice\<close>, which cannot be missing
  where the button exists. The only effect is the warning of line 146.
\<close>

theorem empty_comment_rejected:
  assumes "\<forall>c \<in> set (get_feedback_textarea s). isspace c"
  shows "feedback_section (Some Submit_feedback) (s, db) =
           ((init_feedback_choice s, db), if text_area_shown s then [Warning] else [])
       \<and> add_note_to_db s db = db
       \<and> (feedback_choice s \<noteq> None \<longrightarrow> init_feedback_choice s = s)"
proof -
  have e: "strip (get_feedback_textarea s) = []"
    using assms by (simp add: strip_empty_iff)
  show ?thesis
    using e feedback_choice_cases [of s]
    by (auto simp: feedback_section_def init_feedback_choice_def change_choice_def
        add_note_to_db_def text_area_shown_def)
qed

theorem empty_comment_rejected_witness:
  "list_all isspace (get_feedback_textarea
       \<lparr>current_cluster_id = Some ''A'', feedback_choice = Some (Some Nie_pasuje),
        feedback_comment_submitted = Some False, feedback_textarea = Some ''   ''\<rparr>)
   \<and> feedback_choice
       \<lparr>current_cluster_id = Some ''A'', feedback_choice = Some (Some Nie_pasuje),
        feedback_comment_submitted = Some False, feedback_textarea = Some ''   ''\<rparr>
     \<noteq> None
   \<and> feedback_section (Some Submit_feedback)
       (\<lparr>current_cluster_id = Some ''A'', feedback_choice = Some (Some Nie_pasuje),
         feedback_comment_submitted = Some False, feedback_textarea = Some ''   ''\<rparr>,
        [\<lparr>point_id = 1, vector = [0], payload = [(''text'', ''first'')]\<rparr>])
     = ((\<lparr>current_cluster_id = Some ''A'', feedback_choice = Some (Some Nie_pasuje),
          feedback_comment_submitted = Some False, feedback_textarea = Some ''   ''\<rparr>,
         [\<lparr>point_id = 1, vector = [0], payload = [(''text'', ''first'')]\<rparr>]),
        [Warning])"
  using empty_comment_rejected
    [of "\<lparr>current_cluster_id = Some ''A'', feedback_choice = Some (Some Nie_pasuje),
          feedback_comment_submitted = Some False, feedback_textarea = Some ''   ''\<rparr>"
        "[\<lparr>point_id = 1, vector = [0], payload = [(''text'', ''first'')]\<rparr>]"]
  by (simp add: get_feedback_textarea_def isspace_def text_area_shown_def
      get_feedback_comment_submitted_def)

text \<open>
  C6. When the choice is not \<open>"nie_pasuje"\<close>, or a comment has already been submitted, a
  click on the submit button has no effect: the note store is unchanged, there is neither
  a rerun nor a warning, and the session state keeps its values (again up to lines 112-113
  storing \<open>None\<close> under a missing \<open>feedback_choice\<close>).
\<close>

theorem submit_guard_no_effect:
  assumes "feedback_choice s \<noteq> Some (Some Nie_pasuje) \<or> get_feedback_comment_submitted s"
  shows "feedback_section (Some Submit_feedback) (s, db) = ((init_feedback_choice s, db), [])
       \<and> (feedback_choice s \<noteq> None \<longrightarrow> init_feedback_choice s = s)"
  using assms feedback_choice_cases [of s]
  by (auto simp: feedback_section_def init_feedback_choice_def change_choice_def)

theorem submit_guard_no_effect_witness:
  "get_feedback_comment_submitted
      \<lparr>current_cluster_id = Some ''A'', feedback_choice = Some (Some Nie_pasuje),
       feedback_comment_submitted = Some True, feedback_textarea = Some ''too vague''\<rparr>
   \<and> feedback_choice
       \<lparr>current_cluster_id = Some ''A'', feedback_choice = Some (Some Nie_pasuje),
        feedback_comment_submitted = Some True, feedback_textarea = Some ''too vague''\<rparr>
     \<noteq> None
   \<and> feedback_section (Some Submit_feedback)
       (\<lparr>current_cluster_id = Some ''A'', feedback_choice = Some (Some Nie_pasuje),
         feedback_comment_submitted = Some True, feedback_textarea = Some ''too vague''\<rparr>,
        [\<lparr>point_id = 1, vector = [0], payload = [(''text'', ''too vague'')]\<rparr>])
     = ((\<lparr>current_cluster_id = Some ''A'', feedback_choice = Some (Some Nie_pasuje),
          feedback_comment_submitted = Some True, feedback_textarea = Some ''too vague''\<rparr>,
         [\<lparr>point_id = 1, vector = [0], payload = [(''text'', ''too vague'')]\<rparr>]),
        [])"
  using submit_guard_no_effect
    [of "\<lparr>current_cluster_id = Some ''A'', feedback_choice = Some (Some Nie_pasuje),
          feedback_comment_submitted = Some True, feedback_textarea = Some ''too vague''\<rparr>"
        "[\<lparr>point_id = 1, vector = [0], payload = [(''text'', ''too vague'')]\<rparr>]"]
  by (simp add: get_feedback_comment_submitted_def)

subsection \<open>Change of the choice\<close>

text \<open>
  C7. When a choice has been made, a click on the button of line 151 sets
  \<open>feedback_choice\<close> to \<open>None\<close> and \<open>feedback_comment_submitted\<close> to \<open>False\<close>, removes the
  key \<open>feedback_textarea\<close> and leaves \<open>current_cluster_id\<close> and the note store as they
  are.
\<close>

theorem explicit_reset_keeps_cluster:
  assumes "feedback_choice s = Some (Some ch)"
  shows "feedback_section (Some Btn_zmien_wybor) (s, db) =
           ((\<lparr>current_cluster_id = current_cluster_id s, feedback_choice = Some None,
              feedback_comment_submitted = Some False, feedback_textarea = None\<rparr>, db),
            [Rerun])"
  using assms by (cases ch) (simp_all add: section_defs)

theorem explicit_reset_keeps_cluster_witness:
  "feedback_choice
     \<lparr>current_cluster_id = Some ''A'', feedback_choice = Some (Some Pasuje),
      feedback_comment_submitted = None, feedback_textarea = None\<rparr>
     = Some (Some Pasuje)
   \<and> feedback_section (Some Btn_zmien_wybor)
       (\<lparr>current_cluster_id = Some ''A'', feedback_choice = Some (Some Pasuje),
         feedback_comment_submitted = None, feedback_textarea = None\<rparr>, [])
     = ((\<lparr>current_cluster_id = Some ''A'', feedback_choice = Some None,
          feedback_comment_submitted = Some False, feedback_textarea = None\<rparr>, []),
        [Rerun])"
  using explicit_reset_keeps_cluster
    [of "\<lparr>current_cluster_id = Some ''A'', feedback_choice = Some (Some Pasuje),
          feedback_comment_submitted = None, feedback_textarea = None\<rparr>" Pasuje "[]"]
  by simp

end
